theory Spec2Isabelle
  imports Complex_Main
begin

section \<open>Numbers\<close>

text \<open>
  The notebook computes on torch tensors of floating-point numbers. Rounding and overflow
  are not modelled: a finite number is a real. The three special values that the source
  can produce from finite inputs are kept, with their IEEE arithmetic, because
  \<^verbatim>\<open>masked_fill(mask == 0, float('-inf'))\<close> writes one of them into the scores. Signed
  zeros are not distinguished (a zero divisor counts as +0).
\<close>

datatype fl = Fin real | PInf | NInf | NaN



fun fneg :: "fl \<Rightarrow> fl" where
  "fneg (Fin x) = Fin (- x)"
| "fneg PInf = NInf"
| "fneg NInf = PInf"
| "fneg NaN = NaN"

fun fadd :: "fl \<Rightarrow> fl \<Rightarrow> fl" where
  "fadd (Fin x) (Fin y) = Fin (x + y)"
| "fadd (Fin x) PInf = PInf"
| "fadd (Fin x) NInf = NInf"
| "fadd PInf (Fin y) = PInf"
| "fadd PInf PInf = PInf"
| "fadd PInf NInf = NaN"
| "fadd NInf (Fin y) = NInf"
| "fadd NInf PInf = NaN"
| "fadd NInf NInf = NInf"
| "fadd NaN y = NaN"
| "fadd x NaN = NaN"

definition fsub :: "fl \<Rightarrow> fl \<Rightarrow> fl" where
  "fsub x y = fadd x (fneg y)"

fun fmul :: "fl \<Rightarrow> fl \<Rightarrow> fl" where
  "fmul (Fin x) (Fin y) = Fin (x * y)"
| "fmul (Fin x) PInf = (if x = 0 then NaN else if 0 < x then PInf else NInf)"
| "fmul (Fin x) NInf = (if x = 0 then NaN else if 0 < x then NInf else PInf)"
| "fmul PInf (Fin y) = (if y = 0 then NaN else if 0 < y then PInf else NInf)"
| "fmul NInf (Fin y) = (if y = 0 then NaN else if 0 < y then NInf else PInf)"
| "fmul PInf PInf = PInf"
| "fmul PInf NInf = NInf"
| "fmul NInf PInf = NInf"
| "fmul NInf NInf = PInf"
| "fmul NaN y = NaN"
| "fmul x NaN = NaN"

fun fdiv :: "fl \<Rightarrow> fl \<Rightarrow> fl" where
  "fdiv (Fin x) (Fin y) =
     (if y = 0 then (if x = 0 then NaN else if 0 < x then PInf else NInf) else Fin (x / y))"
| "fdiv (Fin x) PInf = Fin 0"
| "fdiv (Fin x) NInf = Fin 0"
| "fdiv PInf (Fin y) = (if 0 \<le> y then PInf else NInf)"
| "fdiv NInf (Fin y) = (if 0 \<le> y then NInf else PInf)"
| "fdiv PInf PInf = NaN"
| "fdiv PInf NInf = NaN"
| "fdiv NInf PInf = NaN"
| "fdiv NInf NInf = NaN"
| "fdiv NaN y = NaN"
| "fdiv x NaN = NaN"

fun fexp :: "fl \<Rightarrow> fl" where
  "fexp (Fin x) = Fin (exp x)"
| "fexp PInf = PInf"
| "fexp NInf = Fin 0"
| "fexp NaN = NaN"

fun fsqrt :: "fl \<Rightarrow> fl" where
  "fsqrt (Fin x) = (if x < 0 then NaN else Fin (sqrt x))"
| "fsqrt PInf = PInf"
| "fsqrt NInf = NaN"
| "fsqrt NaN = NaN"

text \<open>The maximum of torch propagates NaN.\<close>

fun fmax :: "fl \<Rightarrow> fl \<Rightarrow> fl" where
  "fmax (Fin x) (Fin y) = Fin (max x y)"
| "fmax (Fin x) PInf = PInf"
| "fmax (Fin x) NInf = Fin x"
| "fmax PInf (Fin y) = PInf"
| "fmax PInf PInf = PInf"
| "fmax PInf NInf = PInf"
| "fmax NInf (Fin y) = Fin y"
| "fmax NInf PInf = PInf"
| "fmax NInf NInf = NInf"
| "fmax NaN y = NaN"
| "fmax x NaN = NaN"

definition fsum :: "fl list \<Rightarrow> fl" where
  "fsum xs = foldr fadd xs (Fin 0)"

definition fmaxs :: "fl list \<Rightarrow> fl" where
  "fmaxs xs = foldr fmax xs NInf"

section \<open>Tensors\<close>

text \<open>
  A tensor is its shape and its elements in row-major order, as a contiguous torch tensor
  stores them. \<open>offset\<close> is the position of a multi-index, \<open>unflatten\<close> its inverse;
  \<open>tabulate\<close> builds a tensor from a function of the multi-index and \<open>elem\<close> reads one
  element. The source never indexes a tensor itself, so \<open>elem\<close> is only used on indices
  that an operation has computed inside the shape.
\<close>

record tensor =
  shape :: "nat list"
  data :: "fl list"

definition wf :: "tensor \<Rightarrow> bool" where
  "wf t = (length (data t) = prod_list (shape t))"


fun offset :: "nat list \<Rightarrow> nat list \<Rightarrow> nat" where
  "offset (d # ds) (i # is) = i * prod_list ds + offset ds is"
| "offset ds is = 0"

fun unflatten :: "nat list \<Rightarrow> nat \<Rightarrow> nat list" where
  "unflatten [] n = []"
| "unflatten (d # ds) n = (n div prod_list ds) # unflatten ds (n mod prod_list ds)"

definition elem :: "tensor \<Rightarrow> nat list \<Rightarrow> fl" where
  "elem t idx = data t ! offset (shape t) idx"

definition tabulate :: "nat list \<Rightarrow> (nat list \<Rightarrow> fl) \<Rightarrow> tensor" where
  "tabulate sh f = \<lparr>shape = sh, data = map (\<lambda>n. f (unflatten sh n)) [0..<prod_list sh]\<rparr>"

text \<open>An index is inside a shape when it has the shape's rank and every entry is in range.\<close>

definition inside :: "nat list \<Rightarrow> nat list \<Rightarrow> bool" where
  "inside idx sh = list_all2 (<) idx sh"

section \<open>The tensor operations of torch that the notebook calls\<close>

datatype error = AssertionError | ZeroDivisionError | ValueError | IndexError | RuntimeError

definition then_do :: "error + 'a \<Rightarrow> ('a \<Rightarrow> error + 'b) \<Rightarrow> error + 'b" where
  "then_do r f = (case r of Inl e \<Rightarrow> Inl e | Inr x \<Rightarrow> f x)"

text \<open>
  Broadcasting aligns two shapes at their last axis; two sizes are compatible when they
  are equal or one of them is 1. \<open>bidx sh idx\<close> is the index into an operand of shape
  \<open>sh\<close> that the index \<open>idx\<close> of the broadcast result reads.
\<close>

fun broadcast_rev :: "nat list \<Rightarrow> nat list \<Rightarrow> nat list option" where
  "broadcast_rev [] ys = Some ys"
| "broadcast_rev (x # xs) [] = Some (x # xs)"
| "broadcast_rev (x # xs) (y # ys) =
     (if x = y \<or> y = 1 then map_option ((#) x) (broadcast_rev xs ys)
      else if x = 1 then map_option ((#) y) (broadcast_rev xs ys)
      else None)"

definition broadcast_shapes :: "nat list \<Rightarrow> nat list \<Rightarrow> nat list option" where
  "broadcast_shapes a b = map_option rev (broadcast_rev (rev a) (rev b))"

definition bidx :: "nat list \<Rightarrow> nat list \<Rightarrow> nat list" where
  "bidx sh idx = map2 (\<lambda>d i. if d = 1 then 0 else i) sh (drop (length idx - length sh) idx)"

text \<open>\<^verbatim>\<open>x.size(0)\<close>\<close>

definition size0 :: "tensor \<Rightarrow> error + nat" where
  "size0 t = (case shape t of [] \<Rightarrow> Inl IndexError | d # ds \<Rightarrow> Inr d)"

text \<open>\<^verbatim>\<open>x.transpose(-2, -1)\<close>\<close>

definition swap_last2 :: "nat list \<Rightarrow> nat list" where
  "swap_last2 xs =
     take (length xs - 2) xs @ [xs ! (length xs - 1), xs ! (length xs - 2)]"

definition transpose_last2 :: "tensor \<Rightarrow> error + tensor" where
  "transpose_last2 t =
     (if length (shape t) < 2 then Inl IndexError
      else Inr (tabulate (swap_last2 (shape t)) (\<lambda>idx. elem t (swap_last2 idx))))"

text \<open>
  \<^verbatim>\<open>torch.matmul(a, b)\<close>: a one-dimensional operand is given a unit axis (in front for
  the first operand, behind for the second) that is removed from the result; the last
  two axes are multiplied as matrices and the axes before them are broadcast.
\<close>

definition matmul :: "tensor \<Rightarrow> tensor \<Rightarrow> error + tensor" where
  "matmul a b =
     (if shape a = [] \<or> shape b = [] then Inl RuntimeError
      else
        let sa = (if length (shape a) = 1 then 1 # shape a else shape a);
            sb = (if length (shape b) = 1 then shape b @ [1] else shape b);
            ba = butlast (butlast sa); m = last (butlast sa); k = last sa;
            bb = butlast (butlast sb); k' = last (butlast sb); n = last sb
        in if k \<noteq> k' then Inl RuntimeError
           else case broadcast_shapes ba bb of
             None \<Rightarrow> Inl RuntimeError
           | Some bs \<Rightarrow>
               let r = tabulate (bs @ [m, n]) (\<lambda>idx.
                     let bi = take (length bs) idx;
                         i = idx ! length bs;
                         j = idx ! Suc (length bs)
                     in fsum (map (\<lambda>l. fmul (data a ! offset sa (bidx ba bi @ [i, l]))
                                             (data b ! offset sb (bidx bb bi @ [l, j])))
                                  [0..<k]))
               in Inr (r\<lparr>shape := bs @ (if length (shape a) = 1 then [] else [m])
                                      @ (if length (shape b) = 1 then [] else [n])\<rparr>))"

text \<open>\<^verbatim>\<open>t / c\<close> for a number \<open>c\<close>, and \<^verbatim>\<open>mask == 0\<close> (a tensor of booleans, 1 for true).\<close>

definition div_scalar :: "tensor \<Rightarrow> fl \<Rightarrow> tensor" where
  "div_scalar t c = t\<lparr>data := map (\<lambda>x. fdiv x c) (data t)\<rparr>"

definition eq_zero :: "tensor \<Rightarrow> tensor" where
  "eq_zero t = t\<lparr>data := map (\<lambda>x. if x = Fin 0 then Fin 1 else Fin 0) (data t)\<rparr>"

text \<open>
  \<^verbatim>\<open>t.masked_fill(m, v)\<close> (out of place): \<open>t\<close> and the boolean tensor \<open>m\<close> are broadcast
  against each other.
\<close>

definition masked_fill :: "tensor \<Rightarrow> tensor \<Rightarrow> fl \<Rightarrow> error + tensor" where
  "masked_fill t m v =
     (case broadcast_shapes (shape t) (shape m) of
        None \<Rightarrow> Inl RuntimeError
      | Some sh \<Rightarrow>
          Inr (tabulate sh (\<lambda>idx.
            if elem m (bidx (shape m) idx) = Fin 1 then v else elem t (bidx (shape t) idx))))"

text \<open>
  \<^verbatim>\<open>nn.Softmax(dim=-1)\<close>: every row along the last axis is exponentiated, after its
  maximum is subtracted, and divided by the sum of the row.
\<close>

definition softmax_row :: "fl list \<Rightarrow> fl list" where
  "softmax_row xs =
     (let m = fmaxs xs; es = map (\<lambda>x. fexp (fsub x m)) xs; s = fsum es
      in map (\<lambda>e. fdiv e s) es)"

definition softmax :: "tensor \<Rightarrow> tensor" where
  "softmax t =
     (if shape t = [] then t\<lparr>data := softmax_row (data t)\<rparr>
      else tabulate (shape t) (\<lambda>idx.
        softmax_row (map (\<lambda>j. elem t (butlast idx @ [j])) [0..<last (shape t)]) ! last idx))"

text \<open>\<^verbatim>\<open>a + b\<close> and \<^verbatim>\<open>nn.ReLU()\<close>\<close>

definition add :: "tensor \<Rightarrow> tensor \<Rightarrow> error + tensor" where
  "add x y =
     (case broadcast_shapes (shape x) (shape y) of
        None \<Rightarrow> Inl RuntimeError
      | Some sh \<Rightarrow>
          Inr (tabulate sh (\<lambda>idx.
            fadd (elem x (bidx (shape x) idx)) (elem y (bidx (shape y) idx)))))"

definition ReLU :: "tensor \<Rightarrow> tensor" where
  "ReLU t = t\<lparr>data := map (fmax (Fin 0)) (data t)\<rparr>"

text \<open>
  \<^verbatim>\<open>t.view(*dims)\<close>: one entry may be -1 and is inferred from the number of elements;
  it cannot be inferred when the other entries multiply to zero.
\<close>

definition view :: "tensor \<Rightarrow> int list \<Rightarrow> error + tensor" where
  "view t dims =
     (let numel = int (prod_list (shape t));
          newsize = prod_list (filter (\<lambda>d. d \<noteq> - 1) dims)
      in if 1 < length (filter (\<lambda>d. d = - 1) dims) \<or> list_ex (\<lambda>d. d < - 1) dims
         then Inl RuntimeError
         else if numel = newsize \<or> (- 1 \<in> set dims \<and> 0 < newsize \<and> numel mod newsize = 0)
         then
           (if - 1 \<in> set dims
            then (if newsize = 0 then Inl RuntimeError
                  else Inr (t\<lparr>shape := map (\<lambda>d. nat (if d = - 1 then numel div newsize else d)) dims\<rparr>))
            else Inr (t\<lparr>shape := map nat dims\<rparr>))
         else Inl RuntimeError)"

text \<open>
  \<^verbatim>\<open>t.permute(*perm)\<close>: axis \<open>k\<close> of the result is axis \<open>perm ! k\<close> of \<open>t\<close>. The result is
  stored row-major again, which is what \<^verbatim>\<open>.contiguous()\<close> asks for.
\<close>

definition permute :: "tensor \<Rightarrow> nat list \<Rightarrow> error + tensor" where
  "permute t perm =
     (if sort perm \<noteq> [0..<length (shape t)] then Inl RuntimeError
      else Inr (tabulate (map (\<lambda>k. shape t ! k) perm) (\<lambda>idx.
        elem t (map (\<lambda>j. idx ! length (takeWhile (\<lambda>k. k \<noteq> j) perm)) [0..<length perm]))))"

section \<open>The layers of torch.nn that the notebook composes\<close>

text \<open>
  \<^verbatim>\<open>nn.Dropout(p)\<close>. A module is created in training mode. In training mode every
  element is multiplied by 0 or by \<open>1 / (1 - p)\<close>; the random draw is the argument
  \<open>keep\<close>, indexed by the position of the element.
\<close>

record Dropout =
  rate :: real
  training :: bool

definition Dropout_init :: "real \<Rightarrow> error + Dropout" where
  "Dropout_init q =
     (if q < 0 \<or> 1 < q then Inl ValueError else Inr \<lparr>rate = q, training = True\<rparr>)"

definition Dropout_forward :: "Dropout \<Rightarrow> (nat \<Rightarrow> bool) \<Rightarrow> tensor \<Rightarrow> tensor" where
  "Dropout_forward d keep x =
     (if rate d = 0 \<or> \<not> training d \<or> data x = [] then x
      else if rate d = 1 then x\<lparr>data := map (\<lambda>v. fmul v (Fin 0)) (data x)\<rparr>
      else x\<lparr>data := map (\<lambda>n. fmul (data x ! n) (Fin (if keep n then 1 / (1 - rate d) else 0)))
                         [0..<length (data x)]\<rparr>)"

text \<open>
  \<^verbatim>\<open>nn.Linear(in_features, out_features)\<close>: \<open>y = x W\<^sup>T + b\<close> on the last axis. The
  random initial values are the arguments \<open>w0\<close> and \<open>b0\<close>.
\<close>

record Linear =
  weight :: tensor
  bias :: tensor

type_synonym linear_seed = "(nat \<Rightarrow> nat \<Rightarrow> real) \<times> (nat \<Rightarrow> real)"

definition Linear_init :: "linear_seed \<Rightarrow> int \<Rightarrow> int \<Rightarrow> error + Linear" where
  "Linear_init seed in_features out_features =
     (if in_features < 0 \<or> out_features < 0 then Inl RuntimeError
      else Inr \<lparr>weight = tabulate [nat out_features, nat in_features]
                          (\<lambda>idx. Fin (fst seed (idx ! 0) (idx ! 1))),
                bias = tabulate [nat out_features] (\<lambda>idx. Fin (snd seed (idx ! 0)))\<rparr>)"

definition Linear_forward :: "Linear \<Rightarrow> tensor \<Rightarrow> error + tensor" where
  "Linear_forward l x =
     (let out_features = shape (weight l) ! 0; in_features = shape (weight l) ! 1
      in if shape x = [] \<or> last (shape x) \<noteq> in_features then Inl RuntimeError
         else Inr (tabulate (butlast (shape x) @ [out_features]) (\<lambda>idx.
           fadd (fsum (map (\<lambda>k. fmul (elem x (butlast idx @ [k])) (elem (weight l) [last idx, k]))
                           [0..<in_features]))
                (elem (bias l) [last idx]))))"

text \<open>
  \<^verbatim>\<open>nn.LayerNorm(d)\<close>: mean and (biased) variance over the last axis, then the affine
  map with weight 1 and bias 0 at creation.
\<close>

record LayerNorm =
  normalized_shape :: nat
  ln_weight :: tensor
  ln_bias :: tensor
  eps :: real

definition LayerNorm_init :: "int \<Rightarrow> error + LayerNorm" where
  "LayerNorm_init d =
     (if d < 0 then Inl RuntimeError
      else Inr \<lparr>normalized_shape = nat d,
                ln_weight = tabulate [nat d] (\<lambda>idx. Fin 1),
                ln_bias = tabulate [nat d] (\<lambda>idx. Fin 0),
                eps = 1 / 100000\<rparr>)"

definition LayerNorm_forward :: "LayerNorm \<Rightarrow> tensor \<Rightarrow> error + tensor" where
  "LayerNorm_forward lnorm x =
     (let n = normalized_shape lnorm
      in if shape x = [] \<or> last (shape x) \<noteq> n then Inl RuntimeError
         else Inr (tabulate (shape x) (\<lambda>idx.
           let row = map (\<lambda>k. elem x (butlast idx @ [k])) [0..<n];
               mean = fdiv (fsum row) (Fin (real n));
               var = fdiv (fsum (map (\<lambda>v. fmul (fsub v mean) (fsub v mean)) row)) (Fin (real n))
           in fadd (fmul (fdiv (fsub (elem x idx) mean) (fsqrt (fadd var (Fin (eps lnorm)))))
                         (elem (ln_weight lnorm) [last idx]))
                   (elem (ln_bias lnorm) [last idx]))))"

section \<open>Scaled dot-product attention\<close>

record ScaledDotProductAttention =
  sdpa_d_k :: int
  sdpa_dropout :: Dropout

definition ScaledDotProductAttention_init :: "int \<Rightarrow> real \<Rightarrow> error + ScaledDotProductAttention" where
  "ScaledDotProductAttention_init d_k dropout =
     then_do (Dropout_init dropout) (\<lambda>d. Inr \<lparr>sdpa_d_k = d_k, sdpa_dropout = d\<rparr>)"

text \<open>
  The body of \<^verbatim>\<open>forward\<close>, statement by statement. Besides the result it returns the
  assignments that had completed when the method returned or raised, in order.
  \<^verbatim>\<open>self.d_k ** 0.5\<close> is a complex number when \<open>d_k\<close> is negative; the quotient is then a
  complex tensor, on which the softmax raises.
\<close>

datatype assigned = Scores | MaskedScores | AttentionWeights | DroppedWeights | Output

definition ScaledDotProductAttention_run ::
  "ScaledDotProductAttention \<Rightarrow> (nat \<Rightarrow> bool) \<Rightarrow> tensor \<Rightarrow> tensor \<Rightarrow> tensor \<Rightarrow> tensor option
     \<Rightarrow> (error + tensor \<times> tensor) \<times> assigned list" where
  "ScaledDotProductAttention_run m keep query key value msk =
     (case then_do (transpose_last2 key) (matmul query) of
        Inl e \<Rightarrow> (Inl e, [])
      | Inr qk \<Rightarrow>
          let scores = div_scalar qk (Fin (sqrt (real_of_int (sdpa_d_k m))));
              done1 = [Scores]
          in case (case msk of None \<Rightarrow> Inr scores
                   | Some mk \<Rightarrow> masked_fill scores (eq_zero mk) NInf) of
               Inl e \<Rightarrow> (Inl e, done1)
             | Inr scores' \<Rightarrow>
                 let done2 = (if msk = None then done1 else done1 @ [MaskedScores])
                 in if sdpa_d_k m < 0 then (Inl RuntimeError, done2)
                    else
                      let attention_weights =
                            Dropout_forward (sdpa_dropout m) keep (softmax scores');
                          done3 = done2 @ [AttentionWeights, DroppedWeights]
                      in case matmul attention_weights value of
                           Inl e \<Rightarrow> (Inl e, done3)
                         | Inr output \<Rightarrow> (Inr (output, attention_weights), done3 @ [Output]))"

definition ScaledDotProductAttention_forward ::
  "ScaledDotProductAttention \<Rightarrow> (nat \<Rightarrow> bool) \<Rightarrow> tensor \<Rightarrow> tensor \<Rightarrow> tensor \<Rightarrow> tensor option
     \<Rightarrow> error + tensor \<times> tensor" where
  "ScaledDotProductAttention_forward m keep query key value msk =
     fst (ScaledDotProductAttention_run m keep query key value msk)"

section \<open>Multi-head attention\<close>

record MultiHeadAttention =
  mha_d_model :: int
  mha_num_heads :: int
  mha_d_k :: int
  W_q :: Linear
  W_k :: Linear
  W_v :: Linear
  W_o :: Linear
  attention :: ScaledDotProductAttention
  mha_dropout :: Dropout

type_synonym mha_seed = "linear_seed \<times> linear_seed \<times> linear_seed \<times> linear_seed"

text \<open>
  \<^verbatim>\<open>d_model % num_heads\<close> raises ZeroDivisionError for zero heads; the \<^verbatim>\<open>assert\<close> is the
  first statement after that.
\<close>

definition MultiHeadAttention_init ::
  "mha_seed \<Rightarrow> int \<Rightarrow> int \<Rightarrow> real \<Rightarrow> error + MultiHeadAttention" where
  "MultiHeadAttention_init seed d_model num_heads dropout =
     (if num_heads = 0 then Inl ZeroDivisionError
      else if d_model mod num_heads \<noteq> 0 then Inl AssertionError
      else
        let d_k = d_model div num_heads
        in then_do (Linear_init (fst seed) d_model d_model) (\<lambda>wq.
           then_do (Linear_init (fst (snd seed)) d_model d_model) (\<lambda>wk.
           then_do (Linear_init (fst (snd (snd seed))) d_model d_model) (\<lambda>wv.
           then_do (Linear_init (snd (snd (snd seed))) d_model d_model) (\<lambda>wo.
           then_do (ScaledDotProductAttention_init d_k dropout) (\<lambda>att.
           then_do (Dropout_init dropout) (\<lambda>dr.
             Inr \<lparr>mha_d_model = d_model, mha_num_heads = num_heads, mha_d_k = d_k,
                  W_q = wq, W_k = wk, W_v = wv, W_o = wo,
                  attention = att, mha_dropout = dr\<rparr>)))))))"

definition split_heads :: "MultiHeadAttention \<Rightarrow> tensor \<Rightarrow> nat \<Rightarrow> error + tensor" where
  "split_heads m x batch_size =
     then_do (view x [int batch_size, - 1, mha_num_heads m, mha_d_k m]) (\<lambda>x.
       permute x [0, 2, 1, 3])"

definition MultiHeadAttention_forward ::
  "MultiHeadAttention \<Rightarrow> (nat \<Rightarrow> bool) \<Rightarrow> tensor \<Rightarrow> tensor \<Rightarrow> tensor \<Rightarrow> tensor option
     \<Rightarrow> error + tensor \<times> tensor" where
  "MultiHeadAttention_forward m keep query key value msk =
     then_do (size0 query) (\<lambda>batch_size.
     then_do (Linear_forward (W_q m) query) (\<lambda>query.
     then_do (Linear_forward (W_k m) key) (\<lambda>key.
     then_do (Linear_forward (W_v m) value) (\<lambda>value.
     then_do (split_heads m query batch_size) (\<lambda>query.
     then_do (split_heads m key batch_size) (\<lambda>key.
     then_do (split_heads m value batch_size) (\<lambda>value.
     then_do (ScaledDotProductAttention_forward (attention m) keep query key value msk)
       (\<lambda>(output, attention_weights).
     then_do (permute output [0, 2, 1, 3]) (\<lambda>output.
     then_do (view output [int batch_size, - 1, mha_d_model m]) (\<lambda>output.
     then_do (Linear_forward (W_o m) output) (\<lambda>output.
       Inr (output, attention_weights))))))))))))"

section \<open>Encoder layer, encoder stack and classifier\<close>

record EncoderLayer =
  multihead_attention :: MultiHeadAttention
  feed_forward_0 :: Linear
  feed_forward_2 :: Linear
  norm1 :: LayerNorm
  norm2 :: LayerNorm
  layer_dropout :: Dropout

type_synonym layer_seed = "mha_seed \<times> linear_seed \<times> linear_seed"

definition EncoderLayer_init ::
  "layer_seed \<Rightarrow> int \<Rightarrow> int \<Rightarrow> int \<Rightarrow> real \<Rightarrow> error + EncoderLayer" where
  "EncoderLayer_init seed d_model num_heads d_ff dropout =
     then_do (MultiHeadAttention_init (fst seed) d_model num_heads dropout) (\<lambda>mha.
     then_do (Linear_init (fst (snd seed)) d_model d_ff) (\<lambda>l0.
     then_do (Linear_init (snd (snd seed)) d_ff d_model) (\<lambda>l2.
     then_do (LayerNorm_init d_model) (\<lambda>n1.
     then_do (LayerNorm_init d_model) (\<lambda>n2.
     then_do (Dropout_init dropout) (\<lambda>dr.
       Inr \<lparr>multihead_attention = mha, feed_forward_0 = l0, feed_forward_2 = l2,
            norm1 = n1, norm2 = n2, layer_dropout = dr\<rparr>))))))"

text \<open>\<^verbatim>\<open>nn.Sequential(nn.Linear(d_model, d_ff), nn.ReLU(), nn.Linear(d_ff, d_model))\<close>\<close>

definition feed_forward :: "EncoderLayer \<Rightarrow> tensor \<Rightarrow> error + tensor" where
  "feed_forward layer x =
     then_do (Linear_forward (feed_forward_0 layer) x) (\<lambda>h.
       Linear_forward (feed_forward_2 layer) (ReLU h))"

text \<open>The three draws of a layer: attention weights, attention output, feed-forward output.\<close>

type_synonym layer_draws = "(nat \<Rightarrow> bool) \<times> (nat \<Rightarrow> bool) \<times> (nat \<Rightarrow> bool)"

definition EncoderLayer_forward ::
  "EncoderLayer \<Rightarrow> layer_draws \<Rightarrow> tensor \<Rightarrow> tensor option \<Rightarrow> error + tensor" where
  "EncoderLayer_forward layer draws x msk =
     then_do (MultiHeadAttention_forward (multihead_attention layer) (fst draws) x x x msk)
       (\<lambda>(attention_output, attention_weights).
     then_do (add x (Dropout_forward (layer_dropout layer) (fst (snd draws)) attention_output))
       (\<lambda>s1.
     then_do (LayerNorm_forward (norm1 layer) s1) (\<lambda>x.
     then_do (feed_forward layer x) (\<lambda>feed_forward_output.
     then_do (add x (Dropout_forward (layer_dropout layer) (snd (snd draws)) feed_forward_output))
       (\<lambda>s2.
       LayerNorm_forward (norm2 layer) s2)))))"

record TransformerEncoder =
  layers :: "EncoderLayer list"

text \<open>\<^verbatim>\<open>[EncoderLayer(d_model, num_heads, d_ff, dropout) for _ in range(num_layers)]\<close>\<close>

fun make_layers ::
  "(nat \<Rightarrow> layer_seed) \<Rightarrow> int \<Rightarrow> int \<Rightarrow> int \<Rightarrow> real \<Rightarrow> nat \<Rightarrow> error + EncoderLayer list" where
  "make_layers seeds d_model num_heads d_ff dropout 0 = Inr []"
| "make_layers seeds d_model num_heads d_ff dropout (Suc n) =
     then_do (EncoderLayer_init (seeds 0) d_model num_heads d_ff dropout) (\<lambda>layer.
     then_do (make_layers (\<lambda>i. seeds (Suc i)) d_model num_heads d_ff dropout n) (\<lambda>rest.
       Inr (layer # rest)))"

definition TransformerEncoder_init ::
  "(nat \<Rightarrow> layer_seed) \<Rightarrow> int \<Rightarrow> int \<Rightarrow> int \<Rightarrow> int \<Rightarrow> real \<Rightarrow> error + TransformerEncoder" where
  "TransformerEncoder_init seeds d_model num_heads d_ff num_layers dropout =
     then_do (make_layers seeds d_model num_heads d_ff dropout (nat num_layers)) (\<lambda>ls.
       Inr \<lparr>layers = ls\<rparr>)"

text \<open>\<^verbatim>\<open>for layer in self.layers: x = layer(x, mask)\<close>\<close>

fun run_layers ::
  "EncoderLayer list \<Rightarrow> (nat \<Rightarrow> layer_draws) \<Rightarrow> tensor \<Rightarrow> tensor option \<Rightarrow> error + tensor" where
  "run_layers [] draws x msk = Inr x"
| "run_layers (layer # rest) draws x msk =
     then_do (EncoderLayer_forward layer (draws 0) x msk) (\<lambda>x.
       run_layers rest (\<lambda>i. draws (Suc i)) x msk)"

definition TransformerEncoder_forward ::
  "TransformerEncoder \<Rightarrow> (nat \<Rightarrow> layer_draws) \<Rightarrow> tensor \<Rightarrow> tensor option \<Rightarrow> error + tensor" where
  "TransformerEncoder_forward enc draws x msk = run_layers (layers enc) draws x msk"

record TransformerClassifier =
  encoder :: TransformerEncoder
  classifier :: Linear

definition TransformerClassifier_init ::
  "(nat \<Rightarrow> layer_seed) \<times> linear_seed \<Rightarrow> int \<Rightarrow> int \<Rightarrow> int \<Rightarrow> int \<Rightarrow> int \<Rightarrow> real
     \<Rightarrow> error + TransformerClassifier" where
  "TransformerClassifier_init seed d_model num_heads d_ff num_layers num_classes dropout =
     then_do (TransformerEncoder_init (fst seed) d_model num_heads d_ff num_layers dropout) (\<lambda>enc.
     then_do (Linear_init (snd seed) d_model num_classes) (\<lambda>cls.
       Inr \<lparr>encoder = enc, classifier = cls\<rparr>))"

definition TransformerClassifier_forward ::
  "TransformerClassifier \<Rightarrow> (nat \<Rightarrow> layer_draws) \<Rightarrow> tensor \<Rightarrow> tensor option \<Rightarrow> error + tensor" where
  "TransformerClassifier_forward model draws x msk =
     then_do (TransformerEncoder_forward (encoder model) draws x msk) (\<lambda>encoder_output.
       Linear_forward (classifier model) encoder_output)"

section \<open>What the constructors establish\<close>

text \<open>
  The shapes of the parameters and the relation between the stored dimensions. They hold
  for every module that a constructor returns (for a positive model dimension and head
  count), and neither training nor a change of mode alters them.
\<close>

definition Linear_ok :: "Linear \<Rightarrow> nat \<Rightarrow> nat \<Rightarrow> bool" where
  "Linear_ok l i out = (shape (weight l) = [out, i] \<and> wf (weight l)
     \<and> shape (bias l) = [out] \<and> wf (bias l))"

definition MultiHeadAttention_ok :: "MultiHeadAttention \<Rightarrow> nat \<Rightarrow> nat \<Rightarrow> bool" where
  "MultiHeadAttention_ok m D H =
     (0 < H \<and> 0 < D \<and> H dvd D
      \<and> mha_d_model m = int D \<and> mha_num_heads m = int H \<and> mha_d_k m = int (D div H)
      \<and> sdpa_d_k (attention m) = int (D div H)
      \<and> Linear_ok (W_q m) D D \<and> Linear_ok (W_k m) D D
      \<and> Linear_ok (W_v m) D D \<and> Linear_ok (W_o m) D D)"

definition EncoderLayer_ok :: "EncoderLayer \<Rightarrow> nat \<Rightarrow> nat \<Rightarrow> nat \<Rightarrow> bool" where
  "EncoderLayer_ok layer D H F =
     (MultiHeadAttention_ok (multihead_attention layer) D H
      \<and> Linear_ok (feed_forward_0 layer) D F \<and> Linear_ok (feed_forward_2 layer) F D
      \<and> normalized_shape (norm1 layer) = D \<and> normalized_shape (norm2 layer) = D)"

section \<open>The specification's formulas\<close>





text \<open>A key position is masked out for a batch entry when its mask entry equals zero.\<close>

definition masked_out :: "tensor option \<Rightarrow> nat \<Rightarrow> nat \<Rightarrow> bool" where
  "masked_out msk b j = (case msk of None \<Rightarrow> False | Some mk \<Rightarrow> elem mk [b, 0, 0, j] = Fin 0)"


text \<open>The documented shape of a mask: \<^verbatim>\<open>(batch_size, 1, 1, seq_len_k)\<close>.\<close>

definition key_mask :: "tensor option \<Rightarrow> nat \<Rightarrow> nat \<Rightarrow> bool" where
  "key_mask msk B Lk = (case msk of None \<Rightarrow> True | Some mk \<Rightarrow> shape mk = [B, 1, 1, Lk] \<and> wf mk)"




section \<open>Small inputs on which the theorems are instantiated\<close>

definition example_linear_seed :: linear_seed where
  "example_linear_seed = (\<lambda>i j. 0, \<lambda>i. 0)"

definition example_mha_seed :: mha_seed where
  "example_mha_seed =
     (example_linear_seed, example_linear_seed, example_linear_seed, example_linear_seed)"

text \<open>
  The attention module that \<^verbatim>\<open>ScaledDotProductAttention(1)\<close> constructs (training mode,
  dropout 0.1), the same module after \<^verbatim>\<open>.eval()\<close>, a draw that keeps every element, and
  tensors with one and with two elements.
\<close>

definition example_sdpa :: ScaledDotProductAttention where
  "example_sdpa = \<lparr>sdpa_d_k = 1, sdpa_dropout = \<lparr>rate = 1 / 10, training = True\<rparr>\<rparr>"


definition keep_all :: "nat \<Rightarrow> bool" where
  "keep_all n = True"

definition unit4 :: "real \<Rightarrow> tensor" where
  "unit4 r = \<lparr>shape = [1, 1, 1, 1], data = [Fin r]\<rparr>"


text \<open>Seeds and draws for a layer and for a classifier, and a tensor of zeros.\<close>

definition example_layer_seed :: layer_seed where
  "example_layer_seed = (example_mha_seed, example_linear_seed, example_linear_seed)"

definition example_draws :: layer_draws where
  "example_draws = (keep_all, keep_all, keep_all)"

definition example_classifier_seed :: "(nat \<Rightarrow> layer_seed) \<times> linear_seed" where
  "example_classifier_seed = (\<lambda>i. example_layer_seed, example_linear_seed)"

definition example_stack_draws :: "nat \<Rightarrow> layer_draws" where
  "example_stack_draws i = example_draws"

definition zeros :: "nat list \<Rightarrow> tensor" where
  "zeros sh = tabulate sh (\<lambda>idx. Fin 0)"

section \<open>Index arithmetic\<close>

lemma offset_lt: "list_all2 (<) idx sh \<Longrightarrow> offset sh idx < prod_list sh"
proof (induction idx sh rule: list_all2_induct)
  case Nil
  then show ?case by simp
next
  case (Cons i idx d sh)
  have "i * prod_list sh + offset sh idx < i * prod_list sh + prod_list sh"
    using Cons.IH by simp
  also have "\<dots> = Suc i * prod_list sh" by simp
  also have "\<dots> \<le> d * prod_list sh"
    using Cons.hyps(1) by (intro mult_le_mono1) simp
  finally show ?case by simp
qed

lemma unflatten_offset: "list_all2 (<) idx sh \<Longrightarrow> unflatten sh (offset sh idx) = idx"
proof (induction idx sh rule: list_all2_induct)
  case Nil
  then show ?case by simp
next
  case (Cons i idx d sh)
  have lt: "offset sh idx < prod_list sh"
    using Cons.hyps(2) by (rule offset_lt)
  then have "(i * prod_list sh + offset sh idx) div prod_list sh = i"
    by simp
  moreover have "(i * prod_list sh + offset sh idx) mod prod_list sh = offset sh idx"
    using lt by simp
  ultimately show ?case using Cons.IH by simp
qed



lemma shape_tabulate [simp]: "shape (tabulate sh f) = sh"
  by (simp add: tabulate_def)

lemma wf_tabulate [simp]: "wf (tabulate sh f)"
  by (simp add: wf_def tabulate_def)

lemma elem_tabulate: "inside idx sh \<Longrightarrow> elem (tabulate sh f) idx = f idx"
  unfolding inside_def elem_def tabulate_def
  by (simp add: offset_lt unflatten_offset)


section \<open>Operations on tensors of rank four\<close>

lemma then_do_Inr [simp]: "then_do (Inr x) f = f x"
  by (simp add: then_do_def)

lemma then_do_Inl [simp]: "then_do (Inl e) f = Inl e"
  by (simp add: then_do_def)


lemma inside4 [simp]:
  "inside [b, h, i, j] [B, H, M, N] \<longleftrightarrow> b < B \<and> h < H \<and> i < M \<and> j < N"
  by (simp add: inside_def)

lemma fsum_Nil [simp]: "fsum [] = Fin 0"
  by (simp add: fsum_def)

lemma fsum_Cons [simp]: "fsum (x # xs) = fadd x (fsum xs)"
  by (simp add: fsum_def)


lemma broadcast_rev_same: "broadcast_rev s s = Some s"
  by (induction s) simp_all

lemma broadcast_shapes_same [simp]: "broadcast_shapes s s = Some s"
  by (simp add: broadcast_shapes_def broadcast_rev_same)

lemma map2_bidx_same:
  "list_all2 (<) idx sh \<Longrightarrow> map2 (\<lambda>d i. if d = 1 then 0 else i) sh idx = (idx :: nat list)"
  by (induction idx sh rule: list_all2_induct) auto

lemma bidx_same: "list_all2 (<) idx sh \<Longrightarrow> bidx sh idx = idx"
  using map2_bidx_same [of idx sh] by (simp add: bidx_def list_all2_lengthD)

lemma bidx2 [simp]: "x < B \<Longrightarrow> h < H \<Longrightarrow> bidx [B, H] [x, h] = [x, h]"
  by (simp add: bidx_same)

lemma elem_shape_update [simp]: "elem (t\<lparr>shape := shape t\<rparr>) idx = elem t idx"
  by (simp add: elem_def)

lemma transpose4:
  assumes "shape t = [B, H, L, D]"
  obtains r where "transpose_last2 t = Inr r" and "shape r = [B, H, D, L]" and "wf r"
    and "\<And>b h i j. b < B \<Longrightarrow> h < H \<Longrightarrow> j < D \<Longrightarrow> i < L \<Longrightarrow> elem r [b, h, j, i] = elem t [b, h, i, j]"
proof
  let ?r = "tabulate [B, H, D, L] (\<lambda>idx. elem t (swap_last2 idx))"
  show "transpose_last2 t = Inr ?r"
    using assms by (simp add: transpose_last2_def swap_last2_def)
  show "shape ?r = [B, H, D, L]" by simp
  show "wf ?r" by simp
  show "elem ?r [b, h, j, i] = elem t [b, h, i, j]" if "b < B" "h < H" "j < D" "i < L" for b h i j
    using that by (simp add: elem_tabulate swap_last2_def)
qed

lemma matmul4:
  assumes "shape a = [B, H, M, K]" and "shape b = [B, H, K, N]"
  obtains r where "matmul a b = Inr r" and "shape r = [B, H, M, N]" and "wf r"
    and "\<And>x h i j. x < B \<Longrightarrow> h < H \<Longrightarrow> i < M \<Longrightarrow> j < N \<Longrightarrow>
           elem r [x, h, i, j]
             = fsum (map (\<lambda>l. fmul (elem a [x, h, i, l]) (elem b [x, h, l, j])) [0..<K])"
proof
  let ?f = "\<lambda>idx. fsum (map (\<lambda>l. fmul (data a ! offset [B, H, M, K] (bidx [B, H] (take 2 idx) @ [idx ! 2, l]))
                                             (data b ! offset [B, H, K, N] (bidx [B, H] (take 2 idx) @ [l, idx ! 3])))
                                  [0..<K])"
  let ?r = "tabulate [B, H, M, N] ?f"
  show m: "matmul a b = Inr ?r"
    using assms by (simp add: matmul_def Let_def tabulate_def eval_nat_numeral)
  show "shape ?r = [B, H, M, N]" by simp
  show "wf ?r" by simp
  show "elem ?r [x, h, i, j]
             = fsum (map (\<lambda>l. fmul (elem a [x, h, i, l]) (elem b [x, h, l, j])) [0..<K])"
    if "x < B" "h < H" "i < M" "j < N" for x h i j
  proof -
    have "elem ?r [x, h, i, j] = ?f [x, h, i, j]"
      using that by (simp add: elem_tabulate)
    also have "\<dots> = fsum (map (\<lambda>l. fmul (elem a [x, h, i, l]) (elem b [x, h, l, j])) [0..<K])"
      using that assms by (simp add: elem_def)
    finally show ?thesis .
  qed
qed


lemma shape_div_scalar [simp]: "shape (div_scalar t c) = shape t"
  by (simp add: div_scalar_def)

lemma wf_div_scalar [simp]: "wf (div_scalar t c) = wf t"
  by (simp add: div_scalar_def wf_def)

lemma elem_div_scalar:
  "wf t \<Longrightarrow> inside idx (shape t) \<Longrightarrow> elem (div_scalar t c) idx = fdiv (elem t idx) c"
  by (simp add: elem_def div_scalar_def wf_def inside_def offset_lt)

lemma shape_eq_zero [simp]: "shape (eq_zero t) = shape t"
  by (simp add: eq_zero_def)

lemma wf_eq_zero [simp]: "wf (eq_zero t) = wf t"
  by (simp add: eq_zero_def wf_def)

lemma elem_eq_zero:
  "wf t \<Longrightarrow> inside idx (shape t) \<Longrightarrow>
     elem (eq_zero t) idx = (if elem t idx = Fin 0 then Fin 1 else Fin 0)"
  by (simp add: elem_def eq_zero_def wf_def inside_def offset_lt)

lemma broadcast_mask4 [simp]:
  "broadcast_shapes [B, H, L, K] [B, Suc 0, Suc 0, K] = Some [B, H, L, K]"
  by (simp add: broadcast_shapes_def)

lemma bidx_mask4:
  "x < B \<Longrightarrow> j < K \<Longrightarrow> bidx [B, Suc 0, Suc 0, K] [x, h, i, j] = [x, 0, 0, j]"
  by (auto simp add: bidx_def)

lemma bidx4:
  "x < B \<Longrightarrow> h < H \<Longrightarrow> i < L \<Longrightarrow> j < K \<Longrightarrow> bidx [B, H, L, K] [x, h, i, j] = [x, h, i, j]"
  by (simp add: bidx_same)

lemma masked_fill4:
  assumes "shape t = [B, H, L, K]" and "shape m = [B, 1, 1, K]"
  obtains r where "masked_fill t m v = Inr r" and "shape r = [B, H, L, K]" and "wf r"
    and "\<And>x h i j. x < B \<Longrightarrow> h < H \<Longrightarrow> i < L \<Longrightarrow> j < K \<Longrightarrow>
           elem r [x, h, i, j] = (if elem m [x, 0, 0, j] = Fin 1 then v else elem t [x, h, i, j])"
proof
  let ?f = "\<lambda>idx. if elem m (bidx (shape m) idx) = Fin 1 then v else elem t (bidx (shape t) idx)"
  let ?r = "tabulate [B, H, L, K] ?f"
  show "masked_fill t m v = Inr ?r"
    using assms by (simp add: masked_fill_def)
  show "shape ?r = [B, H, L, K]" by simp
  show "wf ?r" by simp
  show "elem ?r [x, h, i, j] = (if elem m [x, 0, 0, j] = Fin 1 then v else elem t [x, h, i, j])"
    if "x < B" "h < H" "i < L" "j < K" for x h i j
  proof -
    have "elem ?r [x, h, i, j] = ?f [x, h, i, j]"
      using that by (simp add: elem_tabulate)
    then show ?thesis
      using that assms by (simp add: bidx_mask4 bidx4)
  qed
qed

lemma shape_softmax [simp]: "shape (softmax t) = shape t"
  by (simp add: softmax_def)

lemma length_softmax_row [simp]: "length (softmax_row xs) = length xs"
  by (simp add: softmax_row_def Let_def)

lemma wf_softmax [simp]: "wf t \<Longrightarrow> wf (softmax t)"
  by (simp add: softmax_def) (simp add: wf_def)


lemma shape_Dropout_forward [simp]: "shape (Dropout_forward d keep t) = shape t"
  by (simp add: Dropout_forward_def)

lemma wf_Dropout_forward [simp]: "wf (Dropout_forward d keep t) = wf t"
  by (simp add: Dropout_forward_def wf_def)

section \<open>Rows of the softmax\<close>

lemma fmaxs_Nil [simp]: "fmaxs [] = NInf"
  by (simp add: fmaxs_def)

lemma fmaxs_Cons [simp]: "fmaxs (x # xs) = fmax x (fmaxs xs)"
  by (simp add: fmaxs_def)







section \<open>Scaled dot-product attention on tensors of rank four\<close>

lemma sdpa_scores4:
  assumes q: "shape q = [B, H, Lq, d]" and k: "shape k = [B, H, Lk, d]"
    and km: "key_mask msk B Lk"
  obtains qk pre where
    "then_do (transpose_last2 k) (matmul q) = Inr qk"
    and "(case msk of None \<Rightarrow> Inr (div_scalar qk c)
          | Some mk \<Rightarrow> masked_fill (div_scalar qk c) (eq_zero mk) NInf) = Inr pre"
    and "shape pre = [B, H, Lq, Lk]" and "wf pre"
    and "\<And>x h i j. x < B \<Longrightarrow> h < H \<Longrightarrow> i < Lq \<Longrightarrow> j < Lk \<Longrightarrow>
           elem pre [x, h, i, j]
             = (if masked_out msk x j then NInf
                else fdiv (fsum (map (\<lambda>l. fmul (elem q [x, h, i, l]) (elem k [x, h, j, l])) [0..<d])) c)"
proof -
  obtain kt where kt: "transpose_last2 k = Inr kt" "shape kt = [B, H, d, Lk]" "wf kt"
    and kt_elem: "\<And>x h i j. x < B \<Longrightarrow> h < H \<Longrightarrow> j < d \<Longrightarrow> i < Lk \<Longrightarrow>
                    elem kt [x, h, j, i] = elem k [x, h, i, j]"
    by (rule transpose4 [OF k]) blast
  obtain qk where qk: "matmul q kt = Inr qk" "shape qk = [B, H, Lq, Lk]" "wf qk"
    and qk_elem: "\<And>x h i j. x < B \<Longrightarrow> h < H \<Longrightarrow> i < Lq \<Longrightarrow> j < Lk \<Longrightarrow>
           elem qk [x, h, i, j]
             = fsum (map (\<lambda>l. fmul (elem q [x, h, i, l]) (elem kt [x, h, l, j])) [0..<d])"
    by (rule matmul4 [OF q kt(2)]) blast
  let ?scores = "div_scalar qk c"
  have sc_elem: "elem ?scores [x, h, i, j]
      = fdiv (fsum (map (\<lambda>l. fmul (elem q [x, h, i, l]) (elem k [x, h, j, l])) [0..<d])) c"
    if "x < B" "h < H" "i < Lq" "j < Lk" for x h i j
  proof -
    have e: "map (\<lambda>l. fmul (elem q [x, h, i, l]) (elem kt [x, h, l, j])) [0..<d]
        = map (\<lambda>l. fmul (elem q [x, h, i, l]) (elem k [x, h, j, l])) [0..<d]"
      using that by (intro map_cong refl) (simp add: kt_elem)
    have "elem ?scores [x, h, i, j] = fdiv (elem qk [x, h, i, j]) c"
      using that qk by (simp add: elem_div_scalar)
    also have "elem qk [x, h, i, j]
        = fsum (map (\<lambda>l. fmul (elem q [x, h, i, l]) (elem kt [x, h, l, j])) [0..<d])"
      using that by (rule qk_elem)
    finally show ?thesis unfolding e .
  qed
  have first: "then_do (transpose_last2 k) (matmul q) = Inr qk"
    using kt(1) qk(1) by simp
  show ?thesis
  proof (cases msk)
    case None
    show ?thesis
      by (rule that [of qk ?scores]) (use None qk first in \<open>simp_all add: masked_out_def sc_elem\<close>)
  next
    case (Some mk)
    then have mk: "shape mk = [B, Suc 0, Suc 0, Lk]" "wf mk"
      using km by (simp_all add: key_mask_def)
    obtain r where r: "masked_fill ?scores (eq_zero mk) NInf = Inr r"
        "shape r = [B, H, Lq, Lk]" "wf r"
      and r_elem: "\<And>x h i j. x < B \<Longrightarrow> h < H \<Longrightarrow> i < Lq \<Longrightarrow> j < Lk \<Longrightarrow>
           elem r [x, h, i, j]
             = (if elem (eq_zero mk) [x, 0, 0, j] = Fin 1 then NInf else elem ?scores [x, h, i, j])"
    proof (rule masked_fill4 [of ?scores B H Lq Lk "eq_zero mk" NInf])
      show "shape ?scores = [B, H, Lq, Lk]" using qk(2) by simp
      show "shape (eq_zero mk) = [B, 1, 1, Lk]" using mk(1) by simp
    qed blast
    show ?thesis
    proof (rule that [of qk r])
      show "then_do (transpose_last2 k) (matmul q) = Inr qk" by (rule first)
      show "(case msk of None \<Rightarrow> Inr ?scores
             | Some mk \<Rightarrow> masked_fill ?scores (eq_zero mk) NInf) = Inr r"
        using Some r(1) by simp
      show "shape r = [B, H, Lq, Lk]" "wf r" by (rule r)+
      show "elem r [x, h, i, j]
             = (if masked_out msk x j then NInf
                else fdiv (fsum (map (\<lambda>l. fmul (elem q [x, h, i, l]) (elem k [x, h, j, l])) [0..<d])) c)"
        if "x < B" "h < H" "i < Lq" "j < Lk" for x h i j
        using that mk Some by (simp add: r_elem elem_eq_zero inside_def masked_out_def sc_elem)
    qed
  qed
qed


lemma sdpa_run4:
  assumes q: "shape q = [B, H, Lq, d]" and k: "shape k = [B, H, Lk, d]"
    and v: "shape v = [B, H, Lk, dv]"
    and dk: "0 \<le> sdpa_d_k m" and km: "key_mask msk B Lk"
  obtains out pre where
    "ScaledDotProductAttention_run m keep q k v msk
       = (Inr (out, Dropout_forward (sdpa_dropout m) keep (softmax pre)),
          [Scores] @ (if msk = None then [] else [MaskedScores])
            @ [AttentionWeights, DroppedWeights, Output])"
    and "shape pre = [B, H, Lq, Lk]" and "wf pre"
    and "\<And>x h i j. x < B \<Longrightarrow> h < H \<Longrightarrow> i < Lq \<Longrightarrow> j < Lk \<Longrightarrow>
           elem pre [x, h, i, j]
             = (if masked_out msk x j then NInf
                else fdiv (fsum (map (\<lambda>l. fmul (elem q [x, h, i, l]) (elem k [x, h, j, l])) [0..<d]))
                          (Fin (sqrt (real_of_int (sdpa_d_k m)))))"
    and "shape out = [B, H, Lq, dv]" and "wf out"
    and "\<And>x h i c. x < B \<Longrightarrow> h < H \<Longrightarrow> i < Lq \<Longrightarrow> c < dv \<Longrightarrow>
           elem out [x, h, i, c]
             = fsum (map (\<lambda>j. fmul (elem (Dropout_forward (sdpa_dropout m) keep (softmax pre)) [x, h, i, j])
                                     (elem v [x, h, j, c])) [0..<Lk])"
proof -
  let ?c = "Fin (sqrt (real_of_int (sdpa_d_k m)))"
  obtain qk pre where first: "then_do (transpose_last2 k) (matmul q) = Inr qk"
    and pre: "(case msk of None \<Rightarrow> Inr (div_scalar qk ?c)
          | Some mk \<Rightarrow> masked_fill (div_scalar qk ?c) (eq_zero mk) NInf) = Inr pre"
      "shape pre = [B, H, Lq, Lk]" "wf pre"
    and pre_elem: "\<And>x h i j. x < B \<Longrightarrow> h < H \<Longrightarrow> i < Lq \<Longrightarrow> j < Lk \<Longrightarrow>
           elem pre [x, h, i, j]
             = (if masked_out msk x j then NInf
                else fdiv (fsum (map (\<lambda>l. fmul (elem q [x, h, i, l]) (elem k [x, h, j, l])) [0..<d])) ?c)"
    by (rule sdpa_scores4 [where c = ?c, OF q k km]) blast
  let ?w = "Dropout_forward (sdpa_dropout m) keep (softmax pre)"
  have w_shape: "shape ?w = [B, H, Lq, Lk]"
    using pre(2) by simp
  obtain out where out: "matmul ?w v = Inr out" "shape out = [B, H, Lq, dv]" "wf out"
    and out_elem: "\<And>x h i c. x < B \<Longrightarrow> h < H \<Longrightarrow> i < Lq \<Longrightarrow> c < dv \<Longrightarrow>
           elem out [x, h, i, c]
             = fsum (map (\<lambda>j. fmul (elem ?w [x, h, i, j]) (elem v [x, h, j, c])) [0..<Lk])"
    by (rule matmul4 [OF w_shape v]) blast
  have "ScaledDotProductAttention_run m keep q k v msk
       = (Inr (out, ?w),
          [Scores] @ (if msk = None then [] else [MaskedScores])
            @ [AttentionWeights, DroppedWeights, Output])"
    using first pre(1) out(1) dk
    by (simp add: ScaledDotProductAttention_run_def Let_def)
  then show ?thesis
    using pre(2,3) pre_elem out(2,3) out_elem by (rule that)
qed












lemma example_sdpa_init: "ScaledDotProductAttention_init 1 (1 / 10) = Inr example_sdpa"
  by (simp add: ScaledDotProductAttention_init_def Dropout_init_def example_sdpa_def)

section \<open>Claims about scaled dot-product attention\<close>












text \<open>
  C9. Whenever the forward pass returns, the returned weights are the softmax of the
  (masked) scaled scores after dropout, and the returned output is the matrix product of
  exactly these returned weights with the value array.
\<close>

theorem sdpa_returns_dropped_weights:
  assumes "ScaledDotProductAttention_forward m keep q k v msk = Inr (out, w)"
  shows "\<exists>qk scores.
      then_do (transpose_last2 k) (matmul q) = Inr qk
      \<and> (case msk of
            None \<Rightarrow> Inr (div_scalar qk (Fin (sqrt (real_of_int (sdpa_d_k m)))))
          | Some mk \<Rightarrow> masked_fill (div_scalar qk (Fin (sqrt (real_of_int (sdpa_d_k m)))))
                         (eq_zero mk) NInf) = Inr scores
      \<and> w = Dropout_forward (sdpa_dropout m) keep (softmax scores)
      \<and> matmul w v = Inr out"
  using assms
  by (auto simp: ScaledDotProductAttention_forward_def ScaledDotProductAttention_run_def Let_def
      split: sum.splits if_splits)

theorem sdpa_returns_dropped_weights_witness:
  "ScaledDotProductAttention_forward example_sdpa keep_all (unit4 0) (unit4 0) (unit4 2) None
     = Inr (unit4 (20 / 9), unit4 (10 / 9))
   \<and> (\<exists>qk scores.
      then_do (transpose_last2 (unit4 0)) (matmul (unit4 0)) = Inr qk
      \<and> Inr (div_scalar qk (Fin (sqrt (real_of_int (sdpa_d_k example_sdpa))))) = Inr scores
      \<and> unit4 (10 / 9) = Dropout_forward (sdpa_dropout example_sdpa) keep_all (softmax scores)
      \<and> matmul (unit4 (10 / 9)) (unit4 2) = Inr (unit4 (20 / 9)))"
proof -
  have f: "ScaledDotProductAttention_forward example_sdpa keep_all (unit4 0) (unit4 0) (unit4 2) None
     = Inr (unit4 (20 / 9), unit4 (10 / 9))"
    by (simp add: ScaledDotProductAttention_forward_def ScaledDotProductAttention_run_def
      example_sdpa_def unit4_def keep_all_def transpose_last2_def swap_last2_def matmul_def
      Let_def broadcast_shapes_def bidx_def tabulate_def elem_def div_scalar_def
      softmax_def softmax_row_def fsub_def Dropout_forward_def)
  show ?thesis
    using f sdpa_returns_dropped_weights [OF f] by simp
qed

section \<open>Multi-head attention and the encoder on tensors of rank three\<close>

lemma inside3 [simp]:
  "inside [b, l, c] [B, L, C] \<longleftrightarrow> b < B \<and> l < L \<and> c < C"
  by (simp add: inside_def)

lemma Linear_init_ok:
  "Linear_init seed (int i) (int out) = Inr l \<Longrightarrow> Linear_ok l i out"
  by (auto simp: Linear_init_def Linear_ok_def)

lemma Linear_forward3:
  assumes "Linear_ok l i out" and "shape x = [B, L, i]"
  obtains y where "Linear_forward l x = Inr y" and "shape y = [B, L, out]" and "wf y"
    and "\<And>b p c. b < B \<Longrightarrow> p < L \<Longrightarrow> c < out \<Longrightarrow>
           elem y [b, p, c]
             = fadd (fsum (map (\<lambda>k. fmul (elem x [b, p, k]) (elem (weight l) [c, k])) [0..<i]))
                    (elem (bias l) [c])"
proof
  let ?f = "\<lambda>idx. fadd (fsum (map (\<lambda>k. fmul (elem x (butlast idx @ [k])) (elem (weight l) [last idx, k]))
                           [0..<i]))
                (elem (bias l) [last idx])"
  let ?y = "tabulate [B, L, out] ?f"
  show "Linear_forward l x = Inr ?y"
    using assms by (simp add: Linear_forward_def Linear_ok_def Let_def)
  show "shape ?y = [B, L, out]" by simp
  show "wf ?y" by simp
  show "elem ?y [b, p, c]
             = fadd (fsum (map (\<lambda>k. fmul (elem x [b, p, k]) (elem (weight l) [c, k])) [0..<i]))
                    (elem (bias l) [c])"
    if "b < B" "p < L" "c < out" for b p c
    using that by (simp add: elem_tabulate)
qed

lemma view_split:
  assumes "shape x = [B, L, H * dk]" and "0 < B" and "0 < H" and "0 < dk"
  shows "view x [int B, - 1, int H, int dk] = Inr (x\<lparr>shape := [B, L, H, dk]\<rparr>)"
proof -
  have pos: "0 < int B * (int H * int dk)"
    using assms(2-4) by simp
  have e: "int B * (int L * (int H * int dk)) = int L * (int B * (int H * int dk))"
    by (simp add: algebra_simps)
  have d: "int B * (int L * (int H * int dk)) div (int B * (int H * int dk)) = int L"
    unfolding e using pos by (intro nonzero_mult_div_cancel_right) linarith
  have m: "int B * (int L * (int H * int dk)) mod (int B * (int H * int dk)) = 0"
    unfolding e by simp
  show ?thesis
    using assms pos d m by (simp add: view_def Let_def)
qed

lemma view_merge:
  assumes "shape x = [B, L, H, dk]" and "H * dk = D" and "0 < B" and "0 < D"
  shows "view x [int B, - 1, int D] = Inr (x\<lparr>shape := [B, L, D]\<rparr>)"
proof -
  have hd: "int H * int dk = int D"
    using assms(2) by (simp flip: of_nat_mult)
  have pos: "0 < int B * int D"
    using assms(3,4) by simp
  have e: "int B * (int L * int D) = int L * (int B * int D)"
    by (simp add: algebra_simps)
  have d: "int B * (int L * int D) div (int B * int D) = int L"
    unfolding e using pos by (intro nonzero_mult_div_cancel_right) linarith
  have m: "int B * (int L * int D) mod (int B * int D) = 0"
    unfolding e by simp
  show ?thesis
    using assms(1,3,4) pos d m by (simp add: view_def Let_def hd)
qed

lemma permute_0213:
  assumes "shape t = [B, L, H, D]"
  obtains r where "permute t [0, 2, 1, 3] = Inr r" and "shape r = [B, H, L, D]" and "wf r"
    and "\<And>b h p c. b < B \<Longrightarrow> h < H \<Longrightarrow> p < L \<Longrightarrow> c < D \<Longrightarrow>
           elem r [b, h, p, c] = elem t [b, p, h, c]"
proof
  let ?f = "\<lambda>idx. elem t (map (\<lambda>j. idx ! length (takeWhile (\<lambda>k. k \<noteq> j) [0, 2, 1, 3])) [0..<length [0, 2, 1, 3 :: nat]])"
  let ?r = "tabulate [B, H, L, D] ?f"
  have u: "[0..<4] = [0, 1, 2, 3]"
    by (simp add: upt_rec)
  show "permute t [0, 2, 1, 3] = Inr ?r"
    using assms by (simp add: permute_def u)
  show "shape ?r = [B, H, L, D]" by simp
  show "wf ?r" by simp
  show "elem ?r [b, h, p, c] = elem t [b, p, h, c]"
    if "b < B" "h < H" "p < L" "c < D" for b h p c
    using that by (simp add: elem_tabulate u)
qed

lemma add_same:
  assumes "shape x = shape y"
  obtains r where "add x y = Inr r" and "shape r = shape x" and "wf r"
  using assms by (simp add: add_def)

lemma LayerNorm_forward_shape:
  assumes "shape x = [B, L, normalized_shape nrm]"
  obtains r where "LayerNorm_forward nrm x = Inr r" and "shape r = shape x" and "wf r"
  using assms by (simp add: LayerNorm_forward_def Let_def)

lemma shape_ReLU [simp]: "shape (ReLU t) = shape t"
  by (simp add: ReLU_def)

lemma wf_ReLU [simp]: "wf (ReLU t) = wf t"
  by (simp add: ReLU_def wf_def)

lemma MultiHeadAttention_init_ok:
  assumes "MultiHeadAttention_init seed (int D) (int H) dropout = Inr m"
    and "0 < D"
  shows "MultiHeadAttention_ok m D H"
proof -
  have H: "H \<noteq> 0" and dv: "int D mod int H = 0"
    using assms(1) by (auto simp: MultiHeadAttention_init_def split: if_splits)
  have "H dvd D"
    using dv by (metis int_dvd_int_iff mod_eq_0_iff_dvd)
  moreover have "int D div int H = int (D div H)"
    by (simp add: zdiv_int)
  ultimately show ?thesis
    using assms H
    by (auto simp: MultiHeadAttention_init_def MultiHeadAttention_ok_def Let_def
        Linear_init_def Linear_ok_def ScaledDotProductAttention_init_def Dropout_init_def
        then_do_def split: if_splits sum.splits)
qed

lemma split_heads_shape:
  assumes ok: "MultiHeadAttention_ok m D H" and x: "shape x = [B, L, D]" and B: "0 < B"
  obtains r where "split_heads m x B = Inr r" and "shape r = [B, H, L, D div H]" and "wf r"
proof -
  let ?dk = "D div H"
  have D: "D = H * ?dk" and H: "0 < H" and dk: "0 < ?dk"
    using ok by (auto simp: MultiHeadAttention_ok_def div_greater_zero_iff dvd_imp_le)
  have x': "shape x = [B, L, H * ?dk]" using x D by simp
  have v: "view x [int B, - 1, int H, int ?dk] = Inr (x\<lparr>shape := [B, L, H, ?dk]\<rparr>)"
    using x' B H dk by (rule view_split)
  obtain r where r: "permute (x\<lparr>shape := [B, L, H, ?dk]\<rparr>) [0, 2, 1, 3] = Inr r"
      "shape r = [B, H, L, ?dk]" "wf r"
    and "\<And>b h p c. b < B \<Longrightarrow> h < H \<Longrightarrow> p < L \<Longrightarrow> c < ?dk \<Longrightarrow>
           elem r [b, h, p, c] = elem (x\<lparr>shape := [B, L, H, ?dk]\<rparr>) [b, p, h, c]"
    by (rule permute_0213 [of "x\<lparr>shape := [B, L, H, ?dk]\<rparr>" B L H ?dk]) auto
  have "split_heads m x B = Inr r"
    using ok v r(1) by (simp add: split_heads_def MultiHeadAttention_ok_def)
  then show ?thesis using r(2,3) by (rule that)
qed

lemma merge_heads_shape:
  assumes ok: "MultiHeadAttention_ok m D H" and x: "shape x = [B, H, L, D div H]" and B: "0 < B"
  obtains r where "then_do (permute x [0, 2, 1, 3]) (\<lambda>y. view y [int B, - 1, mha_d_model m]) = Inr r"
    and "shape r = [B, L, D]" and "wf r"
proof -
  let ?dk = "D div H"
  have D: "H * ?dk = D" and D0: "0 < D" and dm: "mha_d_model m = int D"
    using ok by (auto simp: MultiHeadAttention_ok_def)
  obtain y where y: "permute x [0, 2, 1, 3] = Inr y" "shape y = [B, L, H, ?dk]" "wf y"
    and "\<And>b h p c. b < B \<Longrightarrow> h < L \<Longrightarrow> p < H \<Longrightarrow> c < ?dk \<Longrightarrow>
           elem y [b, h, p, c] = elem x [b, p, h, c]"
    by (rule permute_0213 [OF x]) blast
  have v: "view y [int B, - 1, int D] = Inr (y\<lparr>shape := [B, L, D]\<rparr>)"
    using y(2) D B D0 by (rule view_merge)
  have w: "wf (y\<lparr>shape := [B, L, D]\<rparr>)"
    using y(2,3) D by (auto simp: wf_def)
  have "then_do (permute x [0, 2, 1, 3]) (\<lambda>y. view y [int B, - 1, mha_d_model m])
      = Inr (y\<lparr>shape := [B, L, D]\<rparr>)"
    using y(1) v dm by simp
  then show ?thesis using w by (intro that) simp_all
qed

lemma mha_forward3:
  assumes ok: "MultiHeadAttention_ok m D H"
    and q: "shape q = [B, Lq, D]" and k: "shape k = [B, Lk, D]" and v: "shape v = [B, Lk, D]"
    and B: "0 < B" and km: "key_mask msk B Lk"
  obtains out w where "MultiHeadAttention_forward m keep q k v msk = Inr (out, w)"
    and "shape out = [B, Lq, D]" and "wf out" and "shape w = [B, H, Lq, Lk]"
proof -
  let ?dk = "D div H"
  have lin: "Linear_ok (W_q m) D D" "Linear_ok (W_k m) D D" "Linear_ok (W_v m) D D"
      "Linear_ok (W_o m) D D"
    and dk: "0 \<le> sdpa_d_k (attention m)"
    using ok by (simp_all add: MultiHeadAttention_ok_def)
  have s0: "size0 q = Inr B" using q by (simp add: size0_def)
  obtain q1 where q1: "Linear_forward (W_q m) q = Inr q1" "shape q1 = [B, Lq, D]"
    by (rule Linear_forward3 [OF lin(1) q]) blast
  obtain k1 where k1: "Linear_forward (W_k m) k = Inr k1" "shape k1 = [B, Lk, D]"
    by (rule Linear_forward3 [OF lin(2) k]) blast
  obtain v1 where v1: "Linear_forward (W_v m) v = Inr v1" "shape v1 = [B, Lk, D]"
    by (rule Linear_forward3 [OF lin(3) v]) blast
  obtain q2 where q2: "split_heads m q1 B = Inr q2" "shape q2 = [B, H, Lq, ?dk]"
    by (rule split_heads_shape [OF ok q1(2) B]) blast
  obtain k2 where k2: "split_heads m k1 B = Inr k2" "shape k2 = [B, H, Lk, ?dk]"
    by (rule split_heads_shape [OF ok k1(2) B]) blast
  obtain v2 where v2: "split_heads m v1 B = Inr v2" "shape v2 = [B, H, Lk, ?dk]"
    by (rule split_heads_shape [OF ok v1(2) B]) blast
  obtain o1 pre where run: "ScaledDotProductAttention_run (attention m) keep q2 k2 v2 msk
       = (Inr (o1, Dropout_forward (sdpa_dropout (attention m)) keep (softmax pre)),
          [Scores] @ (if msk = None then [] else [MaskedScores])
            @ [AttentionWeights, DroppedWeights, Output])"
    and pre: "shape pre = [B, H, Lq, Lk]" and o1: "shape o1 = [B, H, Lq, ?dk]"
    by (rule sdpa_run4 [OF q2(2) k2(2) v2(2) dk km]) blast
  let ?w = "Dropout_forward (sdpa_dropout (attention m)) keep (softmax pre)"
  have att: "ScaledDotProductAttention_forward (attention m) keep q2 k2 v2 msk = Inr (o1, ?w)"
    by (simp add: ScaledDotProductAttention_forward_def run)
  obtain o2 where o2: "then_do (permute o1 [0, 2, 1, 3]) (\<lambda>y. view y [int B, - 1, mha_d_model m]) = Inr o2"
      "shape o2 = [B, Lq, D]"
    by (rule merge_heads_shape [OF ok o1 B]) blast
  obtain out where out: "Linear_forward (W_o m) o2 = Inr out" "shape out = [B, Lq, D]" "wf out"
    by (rule Linear_forward3 [OF lin(4) o2(2)]) blast
  have "MultiHeadAttention_forward m keep q k v msk = Inr (out, ?w)"
    using s0 q1(1) k1(1) v1(1) q2(1) k2(1) v2(1) att o2(1) out(1)
    by (auto simp: MultiHeadAttention_forward_def then_do_def split: sum.splits)
  then show ?thesis
    using out(2,3) pre by (intro that [of out ?w]) simp_all
qed

lemma then_do_eq_Inr: "then_do r f = Inr y \<longleftrightarrow> (\<exists>x. r = Inr x \<and> f x = Inr y)"
  by (cases r) simp_all

lemma EncoderLayer_init_ok:
  assumes "EncoderLayer_init seed (int D) (int H) (int F) dropout = Inr layer" and "0 < D"
  shows "EncoderLayer_ok layer D H F"
proof -
  from assms(1) obtain mha l0 l2 n1 n2 dr where
    mha: "MultiHeadAttention_init (fst seed) (int D) (int H) dropout = Inr mha"
    and l0: "Linear_init (fst (snd seed)) (int D) (int F) = Inr l0"
    and l2: "Linear_init (snd (snd seed)) (int F) (int D) = Inr l2"
    and n1: "LayerNorm_init (int D) = Inr n1" and n2: "LayerNorm_init (int D) = Inr n2"
    and layer: "layer = \<lparr>multihead_attention = mha, feed_forward_0 = l0, feed_forward_2 = l2,
            norm1 = n1, norm2 = n2, layer_dropout = dr\<rparr>"
    unfolding EncoderLayer_init_def then_do_eq_Inr by auto
  have "MultiHeadAttention_ok mha D H"
    using mha assms(2) by (rule MultiHeadAttention_init_ok)
  moreover have "Linear_ok l0 D F" "Linear_ok l2 F D"
    using l0 l2 by (simp_all add: Linear_init_ok)
  moreover have "normalized_shape n1 = D" "normalized_shape n2 = D"
    using n1 n2 by (auto simp: LayerNorm_init_def)
  ultimately show ?thesis
    by (simp add: EncoderLayer_ok_def layer)
qed

lemma encoder_layer_forward3:
  assumes ok: "EncoderLayer_ok layer D H F" and x: "shape x = [B, L, D]"
    and B: "0 < B" and km: "key_mask msk B L"
  obtains out where "EncoderLayer_forward layer draws x msk = Inr out"
    and "shape out = [B, L, D]" and "wf out"
proof -
  have mha: "MultiHeadAttention_ok (multihead_attention layer) D H"
    and l0: "Linear_ok (feed_forward_0 layer) D F" and l2: "Linear_ok (feed_forward_2 layer) F D"
    and n1: "normalized_shape (norm1 layer) = D" and n2: "normalized_shape (norm2 layer) = D"
    using ok by (simp_all add: EncoderLayer_ok_def)
  obtain att w where att: "MultiHeadAttention_forward (multihead_attention layer) (fst draws) x x x msk
        = Inr (att, w)" "shape att = [B, L, D]"
    by (rule mha_forward3 [OF mha x x x B km]) blast
  let ?d1 = "Dropout_forward (layer_dropout layer) (fst (snd draws)) att"
  obtain s1 where s1: "add x ?d1 = Inr s1" "shape s1 = shape x"
    by (rule add_same [of x ?d1]) (use x att(2) in auto)
  obtain x1 where x1: "LayerNorm_forward (norm1 layer) s1 = Inr x1" "shape x1 = shape s1"
    by (rule LayerNorm_forward_shape [of s1 B L "norm1 layer"]) (use s1(2) x n1 in auto)
  have x1s: "shape x1 = [B, L, D]" using x1(2) s1(2) x by simp
  obtain h where h: "Linear_forward (feed_forward_0 layer) x1 = Inr h" "shape h = [B, L, F]"
    by (rule Linear_forward3 [OF l0 x1s]) blast
  obtain ff where ff: "Linear_forward (feed_forward_2 layer) (ReLU h) = Inr ff" "shape ff = [B, L, D]"
    by (rule Linear_forward3 [OF l2, of "ReLU h" B L]) (use h(2) in auto)
  have ffw: "feed_forward layer x1 = Inr ff"
    using h(1) ff(1) by (simp add: feed_forward_def)
  let ?d2 = "Dropout_forward (layer_dropout layer) (snd (snd draws)) ff"
  obtain s2 where s2: "add x1 ?d2 = Inr s2" "shape s2 = shape x1"
    by (rule add_same [of x1 ?d2]) (use x1s ff(2) in auto)
  obtain out where out: "LayerNorm_forward (norm2 layer) s2 = Inr out" "shape out = shape s2" "wf out"
    by (rule LayerNorm_forward_shape [of s2 B L "norm2 layer"]) (use s2(2) x1s n2 in auto)
  have "EncoderLayer_forward layer draws x msk = Inr out"
    using att(1) s1(1) x1(1) ffw s2(1) out(1) by (simp add: EncoderLayer_forward_def)
  then show ?thesis
    using out(2,3) s2(2) x1s by (intro that [of out]) simp_all
qed

lemma make_layers_ok:
  assumes "make_layers seeds (int D) (int H) (int F) dropout n = Inr ls" and "0 < D"
  shows "list_all (\<lambda>l. EncoderLayer_ok l D H F) ls \<and> length ls = n"
  using assms(1)
proof (induction n arbitrary: seeds ls)
  case 0
  then show ?case by simp
next
  case (Suc n)
  from Suc.prems obtain layer rest where
    layer: "EncoderLayer_init (seeds 0) (int D) (int H) (int F) dropout = Inr layer"
    and rest: "make_layers (\<lambda>i. seeds (Suc i)) (int D) (int H) (int F) dropout n = Inr rest"
    and ls: "ls = layer # rest"
    by (auto simp: then_do_eq_Inr)
  have "EncoderLayer_ok layer D H F"
    using layer assms(2) by (rule EncoderLayer_init_ok)
  then show ?case
    using Suc.IH [OF rest] ls by simp
qed

lemma run_layers_shape:
  assumes "list_all (\<lambda>l. EncoderLayer_ok l D H F) ls" and "shape x = [B, L, D]"
    and "0 < B" and "key_mask msk B L"
  shows "\<exists>out. run_layers ls draws x msk = Inr out \<and> shape out = [B, L, D]"
  using assms(1,2)
proof (induction ls arbitrary: x draws)
  case Nil
  then show ?case by simp
next
  case (Cons layer rest)
  have ok: "EncoderLayer_ok layer D H F" and rest: "list_all (\<lambda>l. EncoderLayer_ok l D H F) rest"
    using Cons.prems(1) by simp_all
  obtain x1 where x1: "EncoderLayer_forward layer (draws 0) x msk = Inr x1" "shape x1 = [B, L, D]"
    by (rule encoder_layer_forward3 [OF ok Cons.prems(2) assms(3,4)]) blast
  show ?case
    using Cons.IH [OF rest x1(2)] x1(1) by simp
qed






lemma EncoderLayer_init_d_ff:
  "EncoderLayer_init seed d_model num_heads d_ff dropout = Inr layer \<Longrightarrow> 0 \<le> d_ff"
  by (auto simp: EncoderLayer_init_def then_do_eq_Inr Linear_init_def split: if_splits)

lemma example_classifier_init:
  "\<exists>model. TransformerClassifier_init example_classifier_seed 10 1 10 1 2 (1 / 10) = Inr model"
  by (simp add: TransformerClassifier_init_def TransformerEncoder_init_def
      EncoderLayer_init_def MultiHeadAttention_init_def Linear_init_def
      LayerNorm_init_def ScaledDotProductAttention_init_def Dropout_init_def Let_def)

section \<open>Claims about multi-head attention, the encoder and the classifier\<close>






text \<open>
  C8. For the classifier constructed with \<open>d_model = 10\<close>, \<open>num_heads = 1\<close>, one layer and two
  classes (any \<open>d_ff\<close> and dropout for which construction succeeds), and an input of shape
  \<open>(1, 10, 10)\<close>: the encoder stack returns an array of shape \<open>(1, 10, 10)\<close>, the classifier
  returns an array of shape \<open>(1, 10, 2)\<close>, and the classifier's output at a sequence position
  is the linear projection of the encoder's output at that same position alone.
\<close>

theorem classifier_example_shapes:
  assumes init: "TransformerClassifier_init seed 10 1 d_ff 1 2 dropout = Inr model"
    and x: "shape x = [1, 10, 10]" and km: "key_mask msk 1 10"
  shows "\<exists>encoder_output y.
      TransformerEncoder_forward (encoder model) draws x msk = Inr encoder_output
      \<and> shape encoder_output = [1, 10, 10]
      \<and> TransformerClassifier_forward model draws x msk = Inr y
      \<and> shape y = [1, 10, 2]
      \<and> (\<forall>p<10. \<forall>c<2.
            elem y [0, p, c]
              = fadd (fsum (map (\<lambda>i. fmul (elem encoder_output [0, p, i])
                                            (elem (weight (classifier model)) [c, i])) [0..<10]))
                     (elem (bias (classifier model)) [c]))"
proof -
  from init obtain enc cls where
    enc: "TransformerEncoder_init (fst seed) 10 1 d_ff 1 dropout = Inr enc"
    and cls: "Linear_init (snd seed) 10 2 = Inr cls"
    and model: "model = \<lparr>encoder = enc, classifier = cls\<rparr>"
    by (auto simp: TransformerClassifier_init_def then_do_eq_Inr)
  from enc obtain ls where ls: "make_layers (fst seed) 10 1 d_ff dropout (Suc 0) = Inr ls"
    and enc_ls: "enc = \<lparr>layers = ls\<rparr>"
    by (auto simp: TransformerEncoder_init_def then_do_eq_Inr)
  have "0 \<le> d_ff"
    using ls by (auto simp: then_do_eq_Inr dest: EncoderLayer_init_d_ff)
  then have "make_layers (fst seed) (int 10) (int 1) (int (nat d_ff)) dropout (Suc 0) = Inr ls"
    using ls by simp
  then have ok: "list_all (\<lambda>l. EncoderLayer_ok l 10 1 (nat d_ff)) ls"
    using make_layers_ok [of "fst seed" 10 1 "nat d_ff" dropout "Suc 0" ls] by simp
  obtain encoder_output where eo: "run_layers ls draws x msk = Inr encoder_output"
      "shape encoder_output = [1, 10, 10]"
    using run_layers_shape [OF ok x _ km, of draws] by auto
  have lin: "Linear_ok cls 10 2"
    using Linear_init_ok [of "snd seed" 10 2 cls] cls by simp
  obtain y where y: "Linear_forward cls encoder_output = Inr y" "shape y = [1, 10, 2]" "wf y"
    and y_elem: "\<And>b p c. b < 1 \<Longrightarrow> p < 10 \<Longrightarrow> c < 2 \<Longrightarrow>
           elem y [b, p, c]
             = fadd (fsum (map (\<lambda>k. fmul (elem encoder_output [b, p, k]) (elem (weight cls) [c, k])) [0..<10]))
                    (elem (bias cls) [c])"
    by (rule Linear_forward3 [OF lin eo(2)]) blast
  have e: "TransformerEncoder_forward (encoder model) draws x msk = Inr encoder_output"
    using eo(1) by (simp add: TransformerEncoder_forward_def model enc_ls)
  have c: "TransformerClassifier_forward model draws x msk = Inr y"
    using e y(1) by (simp add: TransformerClassifier_forward_def model)
  show ?thesis
    using e eo(2) c y(2) y_elem
    by (intro exI [of _ encoder_output] exI [of _ y]) (simp add: model)
qed

theorem classifier_example_shapes_witness:
  "\<exists>model. TransformerClassifier_init example_classifier_seed 10 1 10 1 2 (1 / 10) = Inr model
     \<and> shape (zeros [1, 10, 10]) = [1, 10, 10] \<and> key_mask None 1 10
     \<and> (\<exists>encoder_output y.
          TransformerEncoder_forward (encoder model) example_stack_draws (zeros [1, 10, 10]) None
            = Inr encoder_output
          \<and> shape encoder_output = [1, 10, 10]
          \<and> TransformerClassifier_forward model example_stack_draws (zeros [1, 10, 10]) None = Inr y
          \<and> shape y = [1, 10, 2]
          \<and> (\<forall>p<10. \<forall>c<2.
                elem y [0, p, c]
                  = fadd (fsum (map (\<lambda>i. fmul (elem encoder_output [0, p, i])
                                                (elem (weight (classifier model)) [c, i])) [0..<10]))
                         (elem (bias (classifier model)) [c])))"
proof -
  obtain model where
    init: "TransformerClassifier_init example_classifier_seed 10 1 10 1 2 (1 / 10) = Inr model"
    using example_classifier_init by blast
  have x: "shape (zeros [1, 10, 10]) = [1, 10, 10]" and km: "key_mask None 1 10"
    by (simp_all add: zeros_def key_mask_def)
  show ?thesis
    using init x km classifier_example_shapes [OF init x km, of example_stack_draws]
    by blast
qed

section \<open>Claims about construction\<close>

text \<open>
  C4. Constructing Multi-Head Attention with a model dimension that the head count does
  not divide is rejected by the assertion, which is the first statement of the
  constructor (zero heads are rejected one step earlier, by the remainder itself). For a
  model dimension (a non-negative integer) that the head count divides, and a dropout
  probability in [0, 1], construction succeeds with \<open>d_k = d_model // num_heads\<close>.
\<close>

theorem mha_init_divisibility:
  "(num_heads = 0 \<longrightarrow>
      MultiHeadAttention_init seed d_model num_heads dropout = Inl ZeroDivisionError)
   \<and> (num_heads \<noteq> 0 \<and> d_model mod num_heads \<noteq> 0 \<longrightarrow>
      MultiHeadAttention_init seed d_model num_heads dropout = Inl AssertionError)
   \<and> (num_heads \<noteq> 0 \<and> d_model mod num_heads = 0 \<and> 0 \<le> d_model
        \<and> 0 \<le> dropout \<and> dropout \<le> 1 \<longrightarrow>
      (\<exists>m. MultiHeadAttention_init seed d_model num_heads dropout = Inr m
         \<and> mha_d_model m = d_model \<and> mha_num_heads m = num_heads
         \<and> mha_d_k m = d_model div num_heads))"
  by (simp add: MultiHeadAttention_init_def Linear_init_def ScaledDotProductAttention_init_def
      Dropout_init_def Let_def)

theorem mha_init_divisibility_witness:
  "MultiHeadAttention_init example_mha_seed 10 3 (1 / 10) = Inl AssertionError
   \<and> MultiHeadAttention_init example_mha_seed 10 0 (1 / 10) = Inl ZeroDivisionError
   \<and> (\<exists>m. MultiHeadAttention_init example_mha_seed 10 2 (1 / 10) = Inr m
         \<and> mha_d_model m = 10 \<and> mha_num_heads m = 2 \<and> mha_d_k m = 5)"
  using mha_init_divisibility [of 3 example_mha_seed 10 "1 / 10"]
    mha_init_divisibility [of 0 example_mha_seed 10 "1 / 10"]
    mha_init_divisibility [of 2 example_mha_seed 10 "1 / 10"]
  by simp

text \<open>
  C10. An Encoder Stack constructed with \<open>num_layers = 0\<close> has no layer (whatever the other
  arguments are, no layer is constructed, so construction cannot fail), and its forward
  pass returns its input unchanged for every input and mask.
\<close>

theorem encoder_zero_layers_identity:
  "\<exists>enc. TransformerEncoder_init seeds d_model num_heads d_ff 0 dropout = Inr enc
     \<and> TransformerEncoder_forward enc draws x msk = Inr x"
  by (simp add: TransformerEncoder_init_def TransformerEncoder_forward_def)

end
